theory Spec2Isabelle
  imports Main
begin

section \<open>Automatic provisioning of AWS VPCs: the resource state of \<^verbatim>\<open>nixops/resources/vpc.py\<close>\<close>

subsection \<open>Values and configuration\<close>

text \<open>The lifecycle status kept in the attribute \<^verbatim>\<open>state\<close> of a resource.\<close>

datatype status = MISSING | STARTING | UP

text \<open>
  The values stored under the string keys of \<^verbatim>\<open>self._state\<close>: strings and booleans.
  Python's \<^verbatim>\<open>None\<close> is the absence of a value (\<open>None\<close> of the option type).
\<close>

datatype val = S string | B bool

fun truthy :: "val option \<Rightarrow> bool" where
  "truthy None = False"
| "truthy (Some (S x)) = (x \<noteq> [])"
| "truthy (Some (B b)) = b"

text \<open>The definition's \<^verbatim>\<open>config\<close>, with the options the resource state reads.\<close>

record config =
  accessKeyId :: string
  region :: string
  cidrBlock :: string
  instanceTenancy :: string
  enableDnsSupport :: bool
  enableDnsHostnames :: bool
  enableClassicLink :: bool
  amazonProvidedIpv6CidrBlock :: bool
  tags :: "(string \<times> string) list"

subsection \<open>The provider: calls, responses, and the trace of what happened\<close>

datatype call =
    Delete_vpc val
  | Create_vpc string string
  | Describe_vpcs "val list"
  | Create_tags "val option list" "(string \<times> string) list"
  | Modify_vpc_attribute "val option" string bool
  | Enable_vpc_classic_link "val option"
  | Disable_vpc_classic_link "val option"
  | Associate_vpc_cidr_block bool val
  | Disassociate_vpc_cidr_block val

text \<open>
  Of an entry of \<^verbatim>\<open>Ipv6CidrBlockAssociationSet\<close> the code reads \<^verbatim>\<open>['AssociationId']\<close>,
  \<^verbatim>\<open>['Ipv6CidrBlock']\<close> and \<^verbatim>\<open>['Ipv6CidrBlockState']['State']\<close>; the last one is the field
  \<open>Ipv6CidrBlockState\<close> here.
\<close>

record association =
  AssociationId :: string
  Ipv6CidrBlock :: string
  Ipv6CidrBlockState :: string

record vpc_description =
  State :: string
  Ipv6CidrBlockAssociationSet :: "association list"

text \<open>
  The shapes of the provider's answers that the code reads: a
  \<^verbatim>\<open>botocore.exceptions.ClientError\<close> with its error code, \<^verbatim>\<open>{'Vpc': {'VpcId': ..}}\<close>,
  \<^verbatim>\<open>{'Vpcs': [..]}\<close>, \<^verbatim>\<open>{'Ipv6CidrBlockAssociation': {'AssociationId': ..}}\<close>, and any other
  answer.
\<close>

datatype response =
    ClientError_response string
  | Vpc_response string
  | Vpcs_response "vpc_description list"
  | Association_response string
  | Empty_response

text \<open>
  Every write to a persisted attribute, every boundary of a \<^verbatim>\<open>with self.depl._db:\<close> block
  and every provider call is recorded, in order.
\<close>

datatype event = Call call | TxBegin | TxCommit | Write string

text \<open>
  The exceptions. Those that the module raises itself are plain \<^verbatim>\<open>Exception\<close>s, told apart
  by their message:
  \<^item> \<open>ConfigurationError\<close>: \<^verbatim>\<open>please set 'accessKeyId', $EC2_ACCESS_KEY or $AWS_ACCESS_KEY_ID\<close>;
  \<^item> \<open>RecreateRequired v\<close>: \<^verbatim>\<open>vpc {v} definition changed and it needs to be recreated use --allow-recreate if you want to create a new one\<close>;
  \<^item> \<open>UnexpectedState v st\<close>: \<^verbatim>\<open>vpc {v} is in an unexpected state {st}\<close>;
  \<^item> \<open>NotFound v\<close>: \<^verbatim>\<open>couldn't find vpc {v}, please run a deploy with --check\<close>;
  \<^item> \<open>Ipv6UnexpectedState a st\<close>: \<^verbatim>\<open>ipv6 cidr block association {a} is in an unexpected state {st}\<close>.

  \<open>ClientError code\<close> is \<^verbatim>\<open>botocore.exceptions.ClientError\<close> with its error code,
  \<open>CredentialError\<close> what \<^verbatim>\<open>fetch_aws_secret_key\<close> raises, and the others are Python's own.
\<close>

datatype error =
    ConfigurationError
  | RecreateRequired "val option"
  | UnexpectedState val string
  | NotFound val
  | Ipv6UnexpectedState string string
  | ClientError string
  | CredentialError
  | AssertionError
  | KeyError string
  | NameError string
  | TypeError
  | AttributeError

text \<open>
  The object and its surroundings. \<open>state\<close>, \<open>access_key_id\<close> and \<open>state_dict\<close>
  (\<^verbatim>\<open>self._state\<close>) are persisted; \<open>vpc_id\<close> and \<open>client\<close> (\<^verbatim>\<open>self._client\<close>, here the
  region it was made for) live in memory. \<open>responses\<close> holds the answers the provider will
  give to the next calls, \<open>trace\<close> the events so far.
\<close>

record vpc_state =
  state :: status
  access_key_id :: "string option"
  state_dict :: "string \<Rightarrow> val option"
  vpc_id :: "val option"
  client :: "val option"
  responses :: "response list"
  trace :: "event list"

text \<open>
  A method returns a value, raises, or does not return because the provider's answers
  have run out (\<open>Hang\<close>).
\<close>

datatype 'a outcome = Ret 'a vpc_state | Raise error vpc_state | Hang

fun bind :: "'a outcome \<Rightarrow> ('a \<Rightarrow> vpc_state \<Rightarrow> 'b outcome) \<Rightarrow> 'b outcome" where
  "bind (Ret a s) f = f a s"
| "bind (Raise e s) f = Raise e s"
| "bind Hang f = Hang"

text \<open>
  What the module takes from outside this file, as parameters:
  \<^verbatim>\<open>nixops.ec2_utils.get_access_key_id()\<close>, \<^verbatim>\<open>nixops.ec2_utils.fetch_aws_secret_key\<close> (\<open>None\<close>
  when it finds no secret and raises), \<^verbatim>\<open>self.get_common_tags()\<close>, and the method
  \<^verbatim>\<open>update_tags_using(updater, user_tags, check)\<close> that \<^verbatim>\<open>VPCState\<close> inherits from
  \<^verbatim>\<open>EC2CommonState\<close>. Nothing is assumed of that method: it is given the updater, the tags
  of the definition and the flag, and may do to the object whatever it does.
\<close>

record env =
  get_access_key_id :: "string option"
  fetch_aws_secret_key :: "string option \<Rightarrow> (string \<times> string) option"
  get_common_tags :: "(string \<times> string) list"
  update_tags_using ::
    "((string \<times> string) list \<Rightarrow> vpc_state \<Rightarrow> unit outcome) \<Rightarrow> (string \<times> string) list \<Rightarrow> bool
       \<Rightarrow> vpc_state \<Rightarrow> unit outcome"

definition log_event :: "event \<Rightarrow> vpc_state \<Rightarrow> vpc_state" where
  "log_event ev s = s\<lparr>trace := trace s @ [ev]\<rparr>"

text \<open>\<^verbatim>\<open>self.state = x\<close>\<close>

definition set_state :: "status \<Rightarrow> vpc_state \<Rightarrow> vpc_state" where
  "set_state x s = log_event (Write ''state'') (s\<lparr>state := x\<rparr>)"

text \<open>
  Modelled from the spec: the State Store (\<^verbatim>\<open>nixops.state.StateDict\<close>, not in this file) is a
  key-value map with \<open>get(key, default)\<close> and \<open>set(key, value)\<close>. \<open>setitem\<close> is
  \<^verbatim>\<open>self._state[k] = v\<close>; a key set to \<^verbatim>\<open>None\<close> reads back as \<^verbatim>\<open>None\<close> through \<open>get\<close>.
\<close>

definition setitem :: "string \<Rightarrow> val option \<Rightarrow> vpc_state \<Rightarrow> vpc_state" where
  "setitem k v s = log_event (Write k) (s\<lparr>state_dict := (state_dict s)(k := v)\<rparr>)"

text \<open>
  Modelled from the spec: the same State Store, read as \<^verbatim>\<open>self._state[k]\<close>; as with any Python
  mapping, a key without a value raises \<^verbatim>\<open>KeyError\<close>.
\<close>

definition getitem :: "string \<Rightarrow> vpc_state \<Rightarrow> val outcome" where
  "getitem k s = (case state_dict s k of None \<Rightarrow> Raise (KeyError k) s | Some v \<Rightarrow> Ret v s)"

text \<open>\<^verbatim>\<open>with self.depl._db: body\<close>, for a body of assignments.\<close>

definition with_db :: "(vpc_state \<Rightarrow> vpc_state) \<Rightarrow> vpc_state \<Rightarrow> vpc_state" where
  "with_db body s = log_event TxCommit (body (log_event TxBegin s))"

text \<open>
  A call through \<^verbatim>\<open>self._client\<close>: the next answer of the provider, a \<^verbatim>\<open>ClientError\<close> being
  raised.
\<close>

definition api :: "call \<Rightarrow> vpc_state \<Rightarrow> response outcome" where
  "api c s =
     (case client s of
        None \<Rightarrow> Raise AttributeError s
      | Some _ \<Rightarrow>
          (case responses s of
             [] \<Rightarrow> Hang
           | r # rs \<Rightarrow>
               (let s1 = s\<lparr>responses := rs, trace := trace s @ [Call c]\<rparr> in
                case r of
                  ClientError_response code \<Rightarrow> Raise (ClientError code) s1
                | _ \<Rightarrow> Ret r s1)))"

text \<open>
  \<^verbatim>\<open>time.sleep(1)\<close>: the module imports \<^verbatim>\<open>boto3\<close>, \<^verbatim>\<open>botocore\<close>, \<^verbatim>\<open>nixops.util\<close>,
  \<^verbatim>\<open>nixops.resources\<close>, \<^verbatim>\<open>nixops.ec2_utils\<close> and three names from \<^verbatim>\<open>nixops\<close> modules, and
  never \<^verbatim>\<open>time\<close>, so the name is unbound where the statement runs.
\<close>

definition time_sleep :: "nat \<Rightarrow> vpc_state \<Rightarrow> unit outcome" where
  "time_sleep n s = Raise (NameError ''time'') s"

subsection \<open>Handlers\<close>

text \<open>The five \<^verbatim>\<open>Handler\<close> objects made in \<^verbatim>\<open>__init__\<close>, in the order they are made.\<close>

datatype handler =
    handle_create
  | handle_dns
  | handle_classic_link
  | handle_associate_ipv6_cidr_block
  | handle_tag_update

definition handlers :: "handler list" where
  "handlers = [handle_create, handle_dns, handle_classic_link,
               handle_associate_ipv6_cidr_block, handle_tag_update]"

fun handler_keys :: "handler \<Rightarrow> string list" where
  "handler_keys handle_create = [''cidrBlock'', ''region'', ''instanceTenancy'']"
| "handler_keys handle_dns = [''enableDnsHostnames'', ''enableDnsSupport'']"
| "handler_keys handle_classic_link = [''enableClassicLink'']"
| "handler_keys handle_associate_ipv6_cidr_block = [''amazonProvidedIpv6CidrBlock'']"
| "handler_keys handle_tag_update = [''tags'']"

fun after :: "handler \<Rightarrow> handler list" where
  "after handle_create = []"
| "after handle_dns = [handle_create]"
| "after handle_classic_link = [handle_create]"
| "after handle_associate_ipv6_cidr_block = [handle_create]"
| "after handle_tag_update = [handle_create]"

text \<open>
  A plan respects the declared predecessors when every handler in it comes after an
  occurrence of each handler of its \<open>after\<close> list.
\<close>

fun respects_after :: "handler list \<Rightarrow> handler list \<Rightarrow> bool" where
  "respects_after done [] = True"
| "respects_after done (h # hs) =
     (list_all (\<lambda>p. p \<in> set done) (after h) \<and> respects_after (done @ [h]) hs)"

subsection \<open>The methods of \<^verbatim>\<open>VPCState\<close>\<close>

definition connect :: "env \<Rightarrow> vpc_state \<Rightarrow> unit outcome" where
  "connect E s =
     (if client s \<noteq> None then Ret () s
      else bind (getitem ''region'' s) (\<lambda>r s1.
        if \<not> truthy (Some r) then Raise AssertionError s1
        else (case fetch_aws_secret_key E (access_key_id s1) of
                None \<Rightarrow> Raise CredentialError s1
              | Some _ \<Rightarrow> Ret () (s1\<lparr>client := Some r\<rparr>))))"

text \<open>The block of assignments that ends \<^verbatim>\<open>_destroy\<close>.\<close>

definition destroy_writes :: "vpc_state \<Rightarrow> vpc_state" where
  "destroy_writes s =
     setitem ''enableVpcClassicLink'' None
       (setitem ''enableDnsHostname'' None
         (setitem ''enableDnsSupport'' None
           (setitem ''instanceTenancy'' None
             (setitem ''cidrBlock'' None
               (setitem ''region'' None
                 (setitem ''vpcId'' None
                   (set_state MISSING s)))))))"

text \<open>\<^verbatim>\<open>VPCState._destroy\<close>\<close>

definition private_destroy :: "env \<Rightarrow> vpc_state \<Rightarrow> unit outcome" where
  "private_destroy E s =
     (if state s \<noteq> UP then Ret () s
      else bind (connect E s) (\<lambda>_ s1.
        bind (getitem ''vpcId'' s1) (\<lambda>v s2.
          (case api (Delete_vpc v) s2 of
             Ret _ s3 \<Rightarrow> Ret () (with_db destroy_writes s3)
           | Raise (ClientError code) s3 \<Rightarrow>
               (if code = ''InvalidVpcID.NotFound'' then Ret () (with_db destroy_writes s3)
                else Raise (ClientError code) s3)
           | Raise e s3 \<Rightarrow> Raise e s3
           | Hang \<Rightarrow> Hang))))"

text \<open>
  The loop of \<^verbatim>\<open>wait_for_vpc_available\<close>. Each round takes one answer of the provider, so
  the first argument, one more than the number of answers left, is never used up before
  the answers are.
\<close>

fun wait_for_vpc_available_loop :: "nat \<Rightarrow> val \<Rightarrow> vpc_state \<Rightarrow> unit outcome" where
  "wait_for_vpc_available_loop 0 vid s = Hang"
| "wait_for_vpc_available_loop (Suc n) vid s =
     bind (api (Describe_vpcs [vid]) s) (\<lambda>response s1.
       (case response of
          Vpcs_response vpcs \<Rightarrow>
            (if length vpcs = 1 then
               (let vpc = hd vpcs in
                if State vpc = ''available'' then Ret () s1
                else if State vpc \<noteq> ''pending'' then Raise (UnexpectedState vid (State vpc)) s1
                else bind (time_sleep 1 s1) (\<lambda>_ s2. wait_for_vpc_available_loop n vid s2))
             else bind (getitem ''vpcId'' s1) (\<lambda>v s2. Raise (NotFound v) s2))
        | _ \<Rightarrow> Raise (KeyError ''Vpcs'') s1))"

definition wait_for_vpc_available :: "val \<Rightarrow> vpc_state \<Rightarrow> unit outcome" where
  "wait_for_vpc_available vid s =
     bind (wait_for_vpc_available_loop (Suc (length (responses s))) vid s) (\<lambda>_ s1.
       Ret () (with_db (set_state UP) s1))"

text \<open>\<^verbatim>\<open>dict.update\<close> on dictionaries kept as association lists.\<close>

fun dict_set :: "string \<Rightarrow> string \<Rightarrow> (string \<times> string) list \<Rightarrow> (string \<times> string) list" where
  "dict_set k v [] = [(k, v)]"
| "dict_set k v ((k', v') # d) = (if k = k' then (k, v) # d else (k', v') # dict_set k v d)"

definition dict_update :: "(string \<times> string) list \<Rightarrow> (string \<times> string) list \<Rightarrow> (string \<times> string) list" where
  "dict_update d u = fold (\<lambda>(k, v). dict_set k v) u d"

text \<open>The local function \<^verbatim>\<open>tag_updater\<close> of \<^verbatim>\<open>realize_create_vpc\<close>.\<close>

definition tag_updater :: "(string \<times> string) list \<Rightarrow> vpc_state \<Rightarrow> unit outcome" where
  "tag_updater tgs s = bind (api (Create_tags [vpc_id s] tgs) s) (\<lambda>_ s1. Ret () s1)"

text \<open>The block of assignments of \<^verbatim>\<open>realize_create_vpc\<close>.\<close>

definition create_writes :: "config \<Rightarrow> vpc_state \<Rightarrow> vpc_state" where
  "create_writes cfg s =
     setitem ''instanceTenancy'' (Some (S (instanceTenancy cfg)))
       (setitem ''cidrBlock'' (Some (S (cidrBlock cfg)))
         (setitem ''region'' (Some (S (region cfg)))
           (setitem ''vpcId'' (vpc_id s)
             (set_state STARTING s))))"

definition create_vpc :: "string \<Rightarrow> string \<Rightarrow> vpc_state \<Rightarrow> string outcome" where
  "create_vpc cidr tenancy s =
     bind (api (Create_vpc cidr tenancy) s) (\<lambda>vpc s1.
       (case vpc of Vpc_response vid \<Rightarrow> Ret vid s1 | _ \<Rightarrow> Raise AttributeError s1))"

definition realize_create_vpc :: "env \<Rightarrow> config \<Rightarrow> bool \<Rightarrow> vpc_state \<Rightarrow> unit outcome" where
  "realize_create_vpc E cfg allow_recreate s =
     bind (if state s = UP then
             (if \<not> allow_recreate then Raise (RecreateRequired (vpc_id s)) s
              else bind (private_destroy E s) (\<lambda>_ s1. Ret () (s1\<lparr>client := None\<rparr>)))
           else Ret () s) (\<lambda>_ s1.
     bind (connect E (setitem ''region'' (Some (S (region cfg))) s1)) (\<lambda>_ s2.
     bind (create_vpc (cidrBlock cfg) (instanceTenancy cfg) s2) (\<lambda>vid s3.
     bind (update_tags_using E tag_updater (tags cfg) True
             (with_db (create_writes cfg) (s3\<lparr>vpc_id := Some (S vid)\<rparr>))) (\<lambda>_ s4.
     wait_for_vpc_available (S vid) s4))))"

definition realize_classic_link_change :: "env \<Rightarrow> config \<Rightarrow> bool \<Rightarrow> vpc_state \<Rightarrow> unit outcome" where
  "realize_classic_link_change E cfg allow_recreate s =
     bind (connect E s) (\<lambda>_ s1.
     bind (if enableClassicLink cfg then
             bind (api (Enable_vpc_classic_link (vpc_id s1)) s1) (\<lambda>_ s2. Ret () s2)
           else if enableClassicLink cfg = False \<and> truthy (state_dict s1 ''enableClassicLink'') then
             bind (api (Disable_vpc_classic_link (vpc_id s1)) s1) (\<lambda>_ s2. Ret () s2)
           else Ret () s1) (\<lambda>_ s2.
     Ret () (with_db (setitem ''enableClassicLink'' (Some (B (enableClassicLink cfg)))) s2)))"

definition dns_writes :: "config \<Rightarrow> vpc_state \<Rightarrow> vpc_state" where
  "dns_writes cfg s =
     setitem ''enableDnsHostnames'' (Some (B (enableDnsHostnames cfg)))
       (setitem ''enableDnsSupport'' (Some (B (enableDnsSupport cfg))) s)"

definition realize_dns_config :: "env \<Rightarrow> config \<Rightarrow> bool \<Rightarrow> vpc_state \<Rightarrow> unit outcome" where
  "realize_dns_config E cfg allow_recreate s =
     bind (connect E s) (\<lambda>_ s1.
     bind (api (Modify_vpc_attribute (vpc_id s1) ''EnableDnsSupport'' (enableDnsSupport cfg)) s1) (\<lambda>_ s2.
     bind (api (Modify_vpc_attribute (vpc_id s2) ''EnableDnsHostnames'' (enableDnsHostnames cfg)) s2) (\<lambda>_ s3.
     Ret () (with_db (dns_writes cfg) s3))))"

text \<open>The local function \<^verbatim>\<open>lookup_association\<close>: \<^verbatim>\<open>None\<close> when the loop finds nothing.\<close>

fun lookup_association :: "string \<Rightarrow> association list \<Rightarrow> association option" where
  "lookup_association association_id [] = None"
| "lookup_association association_id (assoc # association_set) =
     (if association_id = AssociationId assoc then Some assoc
      else lookup_association association_id association_set)"

fun wait_for_ipv6_cidr_association_loop :: "nat \<Rightarrow> string \<Rightarrow> vpc_state \<Rightarrow> string outcome" where
  "wait_for_ipv6_cidr_association_loop 0 association_id s = Hang"
| "wait_for_ipv6_cidr_association_loop (Suc n) association_id s =
     bind (getitem ''vpcId'' s) (\<lambda>v s0.
     bind (api (Describe_vpcs [v]) s0) (\<lambda>response s1.
       (case response of
          Vpcs_response vpcs \<Rightarrow>
            (if length vpcs = 1 then
               (case lookup_association association_id (Ipv6CidrBlockAssociationSet (hd vpcs)) of
                  None \<Rightarrow> Raise TypeError s1
                | Some association \<Rightarrow>
                    (let cidr_block_state = Ipv6CidrBlockState association in
                     if cidr_block_state = ''associated'' then Ret (Ipv6CidrBlock association) s1
                     else if cidr_block_state \<noteq> ''associating'' then
                       Raise (Ipv6UnexpectedState association_id cidr_block_state) s1
                     else bind (time_sleep 1 s1) (\<lambda>_ s2.
                            wait_for_ipv6_cidr_association_loop n association_id s2)))
             else bind (getitem ''vpcId'' s1) (\<lambda>v s2. Raise (NotFound v) s2))
        | _ \<Rightarrow> Raise (KeyError ''Vpcs'') s1)))"

definition wait_for_ipv6_cidr_association :: "string \<Rightarrow> vpc_state \<Rightarrow> string outcome" where
  "wait_for_ipv6_cidr_association association_id s =
     wait_for_ipv6_cidr_association_loop (Suc (length (responses s))) association_id s"

definition associate_vpc_cidr_block :: "bool \<Rightarrow> val \<Rightarrow> vpc_state \<Rightarrow> string outcome" where
  "associate_vpc_cidr_block flag v s =
     bind (api (Associate_vpc_cidr_block flag v) s) (\<lambda>response s1.
       (case response of
          Association_response association_id \<Rightarrow> Ret association_id s1
        | _ \<Rightarrow> Raise (KeyError ''Ipv6CidrBlockAssociation'') s1))"

definition ipv6_writes :: "config \<Rightarrow> string option \<Rightarrow> vpc_state \<Rightarrow> vpc_state" where
  "ipv6_writes cfg association_id s =
     (let s1 = setitem ''amazonProvidedIpv6CidrBlock'' (Some (B (amazonProvidedIpv6CidrBlock cfg))) s in
      case association_id of
        Some a \<Rightarrow> setitem ''associationId'' (Some (S a)) s1
      | None \<Rightarrow> s1)"

definition realize_associate_ipv6_cidr_block :: "env \<Rightarrow> config \<Rightarrow> bool \<Rightarrow> vpc_state \<Rightarrow> unit outcome" where
  "realize_associate_ipv6_cidr_block E cfg allow_recreate s =
     bind (connect E s) (\<lambda>_ s1.
     bind (if amazonProvidedIpv6CidrBlock cfg then
             bind (getitem ''vpcId'' s1) (\<lambda>v s2.
             bind (associate_vpc_cidr_block (amazonProvidedIpv6CidrBlock cfg) v s2) (\<lambda>association_id s3.
             bind (wait_for_ipv6_cidr_association association_id s3) (\<lambda>cidr_block s4.
               Ret (Some association_id) s4)))
           else if truthy (state_dict s1 ''associationId'') then
             bind (getitem ''vpcId'' s1) (\<lambda>_ s2.
             bind (getitem ''associationId'' s2) (\<lambda>a s3.
             bind (api (Disassociate_vpc_cidr_block a) s3) (\<lambda>_ s4. Ret None s4)))
           else Ret None s1) (\<lambda>association_id s2.
     Ret () (with_db (ipv6_writes cfg association_id) s2)))"

definition realize_update_tag :: "env \<Rightarrow> config \<Rightarrow> bool \<Rightarrow> vpc_state \<Rightarrow> unit outcome" where
  "realize_update_tag E cfg allow_recreate s =
     bind (connect E s) (\<lambda>_ s1.
     bind (api (Create_tags [vpc_id s1] (dict_update (tags cfg) (get_common_tags E))) s1) (\<lambda>_ s2.
       Ret () s2))"

text \<open>The \<^verbatim>\<open>handle\<close> of each handler.\<close>

fun handle :: "env \<Rightarrow> config \<Rightarrow> handler \<Rightarrow> bool \<Rightarrow> vpc_state \<Rightarrow> unit outcome" where
  "handle E cfg handle_create = realize_create_vpc E cfg"
| "handle E cfg handle_dns = realize_dns_config E cfg"
| "handle E cfg handle_classic_link = realize_classic_link_change E cfg"
| "handle E cfg handle_associate_ipv6_cidr_block = realize_associate_ipv6_cidr_block E cfg"
| "handle E cfg handle_tag_update = realize_update_tag E cfg"

text \<open>\<^verbatim>\<open>for handler in diff_engine.plan(): handler.handle(allow_recreate)\<close>\<close>

fun run_plan :: "env \<Rightarrow> config \<Rightarrow> handler list \<Rightarrow> bool \<Rightarrow> vpc_state \<Rightarrow> unit outcome" where
  "run_plan E cfg [] allow_recreate s = Ret () s"
| "run_plan E cfg (h # hs) allow_recreate s =
     bind (handle E cfg h allow_recreate s) (\<lambda>_ s1. run_plan E cfg hs allow_recreate s1)"

definition ensure_state_up :: "env \<Rightarrow> config \<Rightarrow> bool \<Rightarrow> vpc_state \<Rightarrow> unit outcome" where
  "ensure_state_up E cfg check s =
     bind (connect E (setitem ''region'' (Some (S (region cfg))) s)) (\<lambda>_ s1.
       if truthy (state_dict s1 ''vpcId'') then
         bind (if check then
                 bind (getitem ''vpcId'' s1) (\<lambda>v s2.
                   (case api (Describe_vpcs [v]) s2 of
                      Ret _ s3 \<Rightarrow> Ret () s3
                    | Raise (ClientError code) s3 \<Rightarrow>
                        (if code = ''InvalidVpcID.NotFound'' then
                           bind (realize_create_vpc E cfg True s3) (\<lambda>_ s4.
                           bind (realize_classic_link_change E cfg True s4) (\<lambda>_ s5.
                             realize_dns_config E cfg True s5))
                         else Raise (ClientError code) s3)
                    | Raise e s3 \<Rightarrow> Raise e s3
                    | Hang \<Rightarrow> Hang))
               else Ret () s1) (\<lambda>_ s2.
           if state s2 \<noteq> UP then
             bind (getitem ''vpcId'' s2) (\<lambda>v s3. wait_for_vpc_available v s3)
           else Ret () s2)
       else Ret () s1)"

text \<open>
  \<^verbatim>\<open>VPCState.create\<close>. The plan of the diff engine (\<^verbatim>\<open>nixops.diff.Diff\<close>, outside this file) is
  taken as the argument \<open>plan\<close>.
\<close>

definition create ::
  "env \<Rightarrow> handler list \<Rightarrow> config \<Rightarrow> bool \<Rightarrow> bool \<Rightarrow> bool \<Rightarrow> vpc_state \<Rightarrow> unit outcome" where
  "create E plan cfg check allow_reboot allow_recreate s =
     (let key = (if accessKeyId cfg \<noteq> [] then Some (accessKeyId cfg) else get_access_key_id E);
          s1 = log_event (Write ''accessKeyId'') (s\<lparr>access_key_id := key\<rparr>)
      in if key = None \<or> key = Some [] then Raise ConfigurationError s1
         else bind (run_plan E cfg plan allow_recreate s1) (\<lambda>_ s2.
                ensure_state_up E cfg check s2))"

text \<open>\<^verbatim>\<open>VPCState.destroy\<close>\<close>

definition destroy :: "env \<Rightarrow> bool \<Rightarrow> vpc_state \<Rightarrow> bool outcome" where
  "destroy E wipe s = bind (private_destroy E s) (\<lambda>_ s1. Ret True s1)"

subsection \<open>Observing outcomes\<close>

fun result :: "'a outcome \<Rightarrow> (error + 'a) option" where
  "result (Ret a s) = Some (Inr a)"
| "result (Raise e s) = Some (Inl e)"
| "result Hang = None"

fun final :: "'a outcome \<Rightarrow> vpc_state option" where
  "final (Ret a s) = Some s"
| "final (Raise e s) = Some s"
| "final Hang = None"

text \<open>\<^verbatim>\<open>self._state.get(k, None)\<close>\<close>

definition lookup :: "string \<Rightarrow> vpc_state \<Rightarrow> val option" where
  "lookup k s = state_dict s k"

text \<open>The provider calls among the events of a trace.\<close>

fun calls :: "event list \<Rightarrow> call list" where
  "calls [] = []"
| "calls (Call c # es) = c # calls es"
| "calls (_ # es) = calls es"

text \<open>\<^verbatim>\<open>connect\<close> returns: a client exists, or the stored region and the secret key allow one.\<close>

definition can_connect :: "env \<Rightarrow> vpc_state \<Rightarrow> bool" where
  "can_connect E s \<longleftrightarrow>
     client s \<noteq> None \<or>
     (truthy (state_dict s ''region'') \<and> fetch_aws_secret_key E (access_key_id s) \<noteq> None)"

text \<open>An answer of the provider that \<^verbatim>\<open>_destroy\<close> takes as the VPC being gone.\<close>

fun deleted :: "response \<Rightarrow> bool" where
  "deleted (ClientError_response code) = (code = ''InvalidVpcID.NotFound'')"
| "deleted _ = True"

subsection \<open>A concrete deployment\<close>

text \<open>
  One \<^verbatim>\<open>update_tags_using\<close> among those possible: it runs the updater once on the tags of the
  definition when \<open>check\<close> is set, and does nothing else.
\<close>

definition updater_only ::
  "((string \<times> string) list \<Rightarrow> vpc_state \<Rightarrow> unit outcome) \<Rightarrow> (string \<times> string) list \<Rightarrow> bool
     \<Rightarrow> vpc_state \<Rightarrow> unit outcome" where
  "updater_only updater user_tags check s = (if check then updater user_tags s else Ret () s)"

definition example_env :: env where
  "example_env =
     \<lparr>get_access_key_id = None,
      fetch_aws_secret_key =
        (\<lambda>k. if k = Some ''AKIAEXAMPLE'' then Some (''AKIAEXAMPLE'', ''secret'') else None),
      get_common_tags = [],
      update_tags_using = updater_only\<rparr>"

definition example_config :: config where
  "example_config =
     \<lparr>accessKeyId = ''AKIAEXAMPLE'', region = ''eu-west-1'', cidrBlock = ''10.0.0.0/16'',
      instanceTenancy = ''default'', enableDnsSupport = True, enableDnsHostnames = True,
      enableClassicLink = True, amazonProvidedIpv6CidrBlock = True, tags = []\<rparr>"

text \<open>
  The resource as \<open>example_config\<close> made it, in the given status and with the given answers
  of the provider ahead; \<open>example_connected\<close> is the same with a client at hand.
\<close>

definition example_state :: "status \<Rightarrow> response list \<Rightarrow> vpc_state" where
  "example_state st rs =
     \<lparr>state = st, access_key_id = Some ''AKIAEXAMPLE'',
      state_dict = [''vpcId'' \<mapsto> S ''vpc-old'', ''region'' \<mapsto> S ''eu-west-1'',
                    ''cidrBlock'' \<mapsto> S ''10.0.0.0/16'', ''instanceTenancy'' \<mapsto> S ''default'',
                    ''enableDnsSupport'' \<mapsto> B True, ''enableDnsHostnames'' \<mapsto> B True,
                    ''enableClassicLink'' \<mapsto> B True, ''amazonProvidedIpv6CidrBlock'' \<mapsto> B True,
                    ''associationId'' \<mapsto> S ''assoc-1''],
      vpc_id = Some (S ''vpc-old''), client = None, responses = rs, trace = []\<rparr>"

definition example_connected :: "status \<Rightarrow> response list \<Rightarrow> vpc_state" where
  "example_connected st rs = (example_state st rs)\<lparr>client := Some (S ''eu-west-1'')\<rparr>"

text \<open>The same definition with another CIDR block.\<close>

definition changed_config :: config where
  "changed_config = example_config\<lparr>cidrBlock := ''10.1.0.0/16''\<rparr>"

text \<open>The answer to \<^verbatim>\<open>describe_vpcs\<close> that shows one VPC in the given state.\<close>

definition vpc_in_state :: "string \<Rightarrow> response" where
  "vpc_in_state st = Vpcs_response [\<lparr>State = st, Ipv6CidrBlockAssociationSet = []\<rparr>]"

text \<open>One VPC with one IPv6 association in the given state.\<close>

definition vpc_with_association :: "string \<Rightarrow> string \<Rightarrow> response" where
  "vpc_with_association a st =
     Vpcs_response [\<lparr>State = ''available'',
       Ipv6CidrBlockAssociationSet =
         [\<lparr>AssociationId = a, Ipv6CidrBlock = ''2001:db8::/56'', Ipv6CidrBlockState = st\<rparr>]\<rparr>]"

text \<open>The state after one more call has taken one answer.\<close>

definition polled :: "call \<Rightarrow> response list \<Rightarrow> vpc_state \<Rightarrow> vpc_state" where
  "polled c rs s = s\<lparr>responses := rs, trace := trace s @ [Call c]\<rparr>"

subsection \<open>Reading a trace\<close>

text \<open>No persisted write and no block among the events: provider calls only.\<close>

fun no_writes :: "event list \<Rightarrow> bool" where
  "no_writes [] = True"
| "no_writes (Call c # es) = no_writes es"
| "no_writes (_ # es) = False"

text \<open>
  \<open>single_block\<close>: provider calls, then one \<^verbatim>\<open>with self.depl._db:\<close> block that holds every
  write, then provider calls at most. \<open>atomic\<close>: that, or no write at all.
\<close>

fun block_rest :: "event list \<Rightarrow> bool" where
  "block_rest [] = False"
| "block_rest (Write k # es) = block_rest es"
| "block_rest (TxCommit # es) = no_writes es"
| "block_rest (_ # es) = False"

fun single_block :: "event list \<Rightarrow> bool" where
  "single_block [] = False"
| "single_block (Call c # es) = single_block es"
| "single_block (TxBegin # es) = block_rest es"
| "single_block (_ # es) = False"

definition atomic :: "event list \<Rightarrow> bool" where
  "atomic es \<longleftrightarrow> no_writes es \<or> single_block es"

text \<open>
  The keys written outside every block (the flag says whether a block is open),
  whether a block is open after the events, and the number of blocks entered.
\<close>

fun outside_writes :: "bool \<Rightarrow> event list \<Rightarrow> string list" where
  "outside_writes b [] = []"
| "outside_writes b (TxBegin # es) = outside_writes True es"
| "outside_writes b (TxCommit # es) = outside_writes False es"
| "outside_writes b (Write k # es) = (if b then outside_writes b es else k # outside_writes b es)"
| "outside_writes b (Call c # es) = outside_writes b es"

fun in_block :: "bool \<Rightarrow> event list \<Rightarrow> bool" where
  "in_block b [] = b"
| "in_block b (TxBegin # es) = in_block True es"
| "in_block b (TxCommit # es) = in_block False es"
| "in_block b (_ # es) = in_block b es"

definition blocks :: "event list \<Rightarrow> nat" where
  "blocks es = length (filter (\<lambda>e. e = TxBegin) es)"

text \<open>The events that a step from \<open>s\<close> to \<open>s'\<close> added.\<close>

definition new_events :: "vpc_state \<Rightarrow> vpc_state \<Rightarrow> event list" where
  "new_events s s' = drop (length (trace s)) (trace s')"

text \<open>
  \<^verbatim>\<open>realize_create_vpc\<close> in parts. \<open>create_part\<close> runs from
  \<^verbatim>\<open>self._state["region"] = config['region']\<close> (line 173) to the end of the block of
  assignments (line 186) and returns the new id; \<open>create_until_commit\<close> is the method up to
  there (lines 164 to 186). What follows is the call of \<^verbatim>\<open>update_tags_using\<close> and the wait.
\<close>

definition create_part :: "env \<Rightarrow> config \<Rightarrow> vpc_state \<Rightarrow> string outcome" where
  "create_part E cfg s1 =
     bind (connect E (setitem ''region'' (Some (S (region cfg))) s1)) (\<lambda>_ s2.
     bind (create_vpc (cidrBlock cfg) (instanceTenancy cfg) s2) (\<lambda>vid s3.
       Ret vid (with_db (create_writes cfg) (s3\<lparr>vpc_id := Some (S vid)\<rparr>))))"

definition create_until_commit :: "env \<Rightarrow> config \<Rightarrow> bool \<Rightarrow> vpc_state \<Rightarrow> string outcome" where
  "create_until_commit E cfg allow_recreate s =
     bind (if state s = UP then
             (if \<not> allow_recreate then Raise (RecreateRequired (vpc_id s)) s
              else bind (private_destroy E s) (\<lambda>_ s1. Ret () (s1\<lparr>client := None\<rparr>)))
           else Ret () s) (\<lambda>_ s1. create_part E cfg s1)"

text \<open>
  A step that wrote nothing outside a block, left no block open and entered at most
  \<open>k\<close> blocks.
\<close>

definition tidy :: "nat \<Rightarrow> vpc_state \<Rightarrow> vpc_state \<Rightarrow> bool" where
  "tidy k s s' \<longleftrightarrow> (\<exists>es. trace s' = trace s @ es \<and> outside_writes False es = [] \<and>
      in_block False es = False \<and> blocks es \<le> k)"

text \<open>A resource that was never created.\<close>

definition fresh_state :: "response list \<Rightarrow> vpc_state" where
  "fresh_state rs =
     \<lparr>state = MISSING, access_key_id = Some ''AKIAEXAMPLE'', state_dict = Map.empty,
      vpc_id = None, client = None, responses = rs, trace = []\<rparr>"


text \<open>
  The answers of a provider that deletes the old VPC, creates \<^verbatim>\<open>vpc-new\<close>, tags it and shows
  it in the given state at the first poll; the given answers follow.
\<close>

definition recreate_answers :: "string \<Rightarrow> response list \<Rightarrow> response list" where
  "recreate_answers st rs =
     [Empty_response, Vpc_response ''vpc-new'', Empty_response, vpc_in_state st] @ rs"

text \<open>
  The answers of a provider that has lost the VPC: \<^verbatim>\<open>describe_vpcs\<close> and \<^verbatim>\<open>delete_vpc\<close> fail
  with \<^verbatim>\<open>InvalidVpcID.NotFound\<close>, then \<^verbatim>\<open>vpc-new\<close> is created and tagged, its first poll shows
  the given state, and the given answers follow.
\<close>

definition drift_answers :: "string \<Rightarrow> response list \<Rightarrow> response list" where
  "drift_answers st rs =
     [ClientError_response ''InvalidVpcID.NotFound'', ClientError_response ''InvalidVpcID.NotFound'',
      Vpc_response ''vpc-new'', Empty_response, vpc_in_state st] @ rs"

section \<open>Properties\<close>

lemmas prim_defs =
  connect_def getitem_def api_def with_db_def setitem_def set_state_def log_event_def

subsection \<open>Destroy\<close>

text \<open>
  Claim C8 (destroy idempotence). In a state whose lifecycle status is not \<open>UP\<close>, and so in
  every state whose status is \<open>MISSING\<close>, \<open>destroy\<close> returns \<open>True\<close> and hands back the very
  state it was given: no provider call is added to the trace, no persisted attribute is
  written.
\<close>

theorem destroy_not_up_noop:
  "state s \<noteq> UP \<Longrightarrow> destroy E wipe s = Ret True s"
  by (simp add: destroy_def private_destroy_def)

theorem destroy_not_up_noop_witness:
  "state (example_state MISSING []) \<noteq> UP \<and>
   destroy example_env True (example_state MISSING []) = Ret True (example_state MISSING [])"
  using destroy_not_up_noop [of "example_state MISSING []" example_env True]
  by (simp add: example_state_def)

subsection \<open>Handlers and their predecessors\<close>

lemma respects_after_mem:
  "respects_after done (pre @ h # post) \<Longrightarrow> p \<in> set (after h) \<Longrightarrow> p \<in> set done \<union> set pre"
proof (induction pre arbitrary: "done")
  case Nil
  then show ?case by (simp add: list_all_iff)
next
  case (Cons a pre)
  from Cons.prems have "respects_after (done @ [a]) (pre @ h # post)" by simp
  from Cons.IH [OF this Cons.prems(2)] show ?case by auto
qed

lemma respects_after_head:
  "respects_after [] (h # hs) \<Longrightarrow> h = handle_create"
  by (cases h) simp_all

text \<open>
  Claim C9 (predecessor declaration). Every handler other than the creation handler has
  the creation handler in its \<open>after\<close> list; hence in any plan that respects the declared
  predecessors, a handler other than the creation handler stands behind an occurrence of
  the creation handler.
\<close>

theorem predecessors_declared:
  "(\<forall>h \<in> set handlers. h \<noteq> handle_create \<longrightarrow> handle_create \<in> set (after h)) \<and>
   (\<forall>plan pre h post. respects_after [] plan \<and> plan = pre @ h # post \<and> h \<noteq> handle_create
       \<longrightarrow> handle_create \<in> set pre)"
proof (intro conjI allI impI ballI)
  fix h assume "h \<noteq> handle_create"
  then show "handle_create \<in> set (after h)" by (cases h) simp_all
next
  fix plan pre h post
  assume a: "respects_after [] plan \<and> plan = pre @ h # post \<and> h \<noteq> handle_create"
  then have "handle_create \<in> set (after h)" by (cases h) simp_all
  moreover from a have "respects_after [] (pre @ h # post)" by blast
  ultimately show "handle_create \<in> set pre"
    using respects_after_mem [of "[]" pre h post handle_create] by simp
qed

theorem predecessors_declared_witness:
  "handle_dns \<in> set handlers \<and> handle_dns \<noteq> handle_create \<and> handle_create \<in> set (after handle_dns) \<and>
   respects_after [] [handle_create, handle_dns] \<and> handle_create \<in> set [handle_create]"
  using predecessors_declared by (simp add: handlers_def)

subsection \<open>The effect of destroy\<close>

lemma calls_append [simp]: "calls (xs @ ys) = calls xs @ calls ys"
  by (induction xs rule: calls.induct) simp_all

lemma connect_ok:
  assumes "can_connect E s"
  shows "\<exists>c. connect E s = Ret () (s\<lparr>client := Some c\<rparr>)"
proof (cases "client s")
  case None
  with assms show ?thesis
    by (cases "state_dict s ''region''") (auto simp: can_connect_def connect_def getitem_def)
next
  case (Some a)
  then have "connect E s = Ret () (s\<lparr>client := Some a\<rparr>)" by (simp add: connect_def)
  then show ?thesis by blast
qed

lemma private_destroy_up:
  assumes "state s = UP" "can_connect E s" "state_dict s ''vpcId'' = Some v"
    "responses s = r # rs" "deleted r"
  shows "\<exists>c. private_destroy E s =
     Ret () (with_db destroy_writes (s\<lparr>client := Some c, responses := rs, trace := trace s @ [Call (Delete_vpc v)]\<rparr>))"
proof -
  from connect_ok [OF assms(2)] obtain c where c: "connect E s = Ret () (s\<lparr>client := Some c\<rparr>)" by blast
  show ?thesis
    using assms(1,3,4,5) c
    by (cases r) (auto simp: private_destroy_def getitem_def api_def)
qed

text \<open>
  Claim C10, as stated, fails: in status \<open>UP\<close>, when the provider answers \<^verbatim>\<open>delete_vpc\<close> with a
  \<^verbatim>\<open>ClientError\<close> other than \<^verbatim>\<open>InvalidVpcID.NotFound\<close>, \<open>destroy\<close> raises it and returns nothing.
\<close>

theorem destroy_raises_counterexample:
  "result (destroy example_env False (example_state UP [ClientError_response ''DependencyViolation'']))
     = Some (Inl (ClientError ''DependencyViolation''))"
  by (simp add: destroy_def private_destroy_def example_env_def example_state_def prim_defs)

text \<open>
  Claim C10 (amended). \<open>destroy\<close> does the same whatever \<open>wipe\<close> is; every value it returns
  is \<open>True\<close>; and it does return \<open>True\<close> in every status other than \<open>UP\<close>, and in status \<open>UP\<close>
  when a client can be had, a VPC id is stored and the provider deletes the VPC or reports
  it as not found.
\<close>

theorem destroy_returns_True_ignores_wipe:
  "destroy E True s = destroy E False s \<and>
   (\<forall>b s'. destroy E wipe s = Ret b s' \<longrightarrow> b = True) \<and>
   (state s \<noteq> UP \<longrightarrow> result (destroy E wipe s) = Some (Inr True)) \<and>
   (state s = UP \<and> can_connect E s \<and> state_dict s ''vpcId'' \<noteq> None \<and>
      responses s \<noteq> [] \<and> deleted (hd (responses s))
      \<longrightarrow> result (destroy E wipe s) = Some (Inr True))"
proof (intro conjI allI impI)
  show "destroy E True s = destroy E False s" by (simp add: destroy_def)
next
  fix b s' assume "destroy E wipe s = Ret b s'"
  then show "b = True" by (cases "private_destroy E s") (simp_all add: destroy_def)
next
  assume "state s \<noteq> UP"
  then show "result (destroy E wipe s) = Some (Inr True)"
    by (simp add: destroy_def private_destroy_def)
next
  assume a: "state s = UP \<and> can_connect E s \<and> state_dict s ''vpcId'' \<noteq> None \<and>
      responses s \<noteq> [] \<and> deleted (hd (responses s))"
  then obtain v r rs where "state_dict s ''vpcId'' = Some v" "responses s = r # rs" "deleted r"
    by (cases "responses s") auto
  with a private_destroy_up [of s E v r rs]
  show "result (destroy E wipe s) = Some (Inr True)"
    by (auto simp: destroy_def)
qed

theorem destroy_returns_True_ignores_wipe_witness:
  "destroy example_env True (example_state UP [Empty_response])
     = destroy example_env False (example_state UP [Empty_response]) \<and>
   state (example_state UP [Empty_response]) = UP \<and>
   can_connect example_env (example_state UP [Empty_response]) \<and>
   state_dict (example_state UP [Empty_response]) ''vpcId'' \<noteq> None \<and>
   responses (example_state UP [Empty_response]) \<noteq> [] \<and>
   deleted (hd (responses (example_state UP [Empty_response]))) \<and>
   result (destroy example_env True (example_state UP [Empty_response])) = Some (Inr True)"
proof -
  have h: "state (example_state UP [Empty_response]) = UP \<and>
      can_connect example_env (example_state UP [Empty_response]) \<and>
      state_dict (example_state UP [Empty_response]) ''vpcId'' \<noteq> None \<and>
      responses (example_state UP [Empty_response]) \<noteq> [] \<and>
      deleted (hd (responses (example_state UP [Empty_response])))"
    by (simp add: example_state_def example_env_def can_connect_def)
  with destroy_returns_True_ignores_wipe [of example_env "example_state UP [Empty_response]" True]
  show ?thesis by blast
qed

text \<open>Whatever \<^verbatim>\<open>_destroy\<close> raises, \<open>destroy\<close> raises.\<close>

lemma destroy_raises_what_private_destroy_raises:
  "private_destroy E s = Raise e s' \<Longrightarrow> destroy E wipe s = Raise e s'"
  by (simp add: destroy_def)

text \<open>
  Claim C2, as stated, fails twice. From status \<open>STARTING\<close>, \<open>destroy\<close> changes nothing: the
  status stays \<open>STARTING\<close> and the VPC id stays stored. From status \<open>UP\<close>, with the provider
  deleting the VPC, the keys \<^verbatim>\<open>enableDnsHostnames\<close>, \<^verbatim>\<open>enableClassicLink\<close>,
  \<^verbatim>\<open>amazonProvidedIpv6CidrBlock\<close> and \<^verbatim>\<open>associationId\<close> keep their values.
\<close>

theorem destroy_postcondition_counterexample:
  "destroy example_env False (example_state STARTING []) = Ret True (example_state STARTING []) \<and>
   state (example_state STARTING []) = STARTING \<and>
   lookup ''vpcId'' (example_state STARTING []) = Some (S ''vpc-old'') \<and>
   map_option (lookup ''enableDnsHostnames'')
     (final (destroy example_env False (example_state UP [Empty_response]))) = Some (Some (B True)) \<and>
   map_option (lookup ''enableClassicLink'')
     (final (destroy example_env False (example_state UP [Empty_response]))) = Some (Some (B True)) \<and>
   map_option (lookup ''amazonProvidedIpv6CidrBlock'')
     (final (destroy example_env False (example_state UP [Empty_response]))) = Some (Some (B True)) \<and>
   map_option (lookup ''associationId'')
     (final (destroy example_env False (example_state UP [Empty_response]))) = Some (Some (S ''assoc-1''))"
  by (simp add: destroy_def private_destroy_def example_env_def example_state_def prim_defs
        destroy_writes_def lookup_def)

text \<open>
  Claim C2 (amended). In a status other than \<open>UP\<close>, \<open>destroy\<close> returns \<open>True\<close> and changes
  nothing. In status \<open>UP\<close>, when a client can be had, a VPC id is stored and the provider
  deletes the VPC or reports it as not found, \<open>destroy\<close> calls \<^verbatim>\<open>delete_vpc\<close> on that id once,
  sets the status to \<open>MISSING\<close> and clears \<^verbatim>\<open>vpcId\<close>, \<^verbatim>\<open>region\<close>, \<^verbatim>\<open>cidrBlock\<close>,
  \<^verbatim>\<open>instanceTenancy\<close> and \<^verbatim>\<open>enableDnsSupport\<close>.
\<close>

theorem destroy_postcondition:
  "(state s \<noteq> UP \<longrightarrow> destroy E wipe s = Ret True s) \<and>
   (state s = UP \<and> can_connect E s \<and> state_dict s ''vpcId'' = Some v \<and>
      responses s = r # rs \<and> deleted r \<longrightarrow>
      (\<exists>s'. destroy E wipe s = Ret True s' \<and>
            calls (trace s') = calls (trace s) @ [Delete_vpc v] \<and> responses s' = rs \<and>
            state s' = MISSING \<and>
            lookup ''vpcId'' s' = None \<and> lookup ''region'' s' = None \<and>
            lookup ''cidrBlock'' s' = None \<and> lookup ''instanceTenancy'' s' = None \<and>
            lookup ''enableDnsSupport'' s' = None))"
proof (intro conjI impI)
  assume "state s \<noteq> UP"
  then show "destroy E wipe s = Ret True s" by (simp add: destroy_def private_destroy_def)
next
  assume a: "state s = UP \<and> can_connect E s \<and> state_dict s ''vpcId'' = Some v \<and>
      responses s = r # rs \<and> deleted r"
  with private_destroy_up [of s E v r rs] obtain c where
    "private_destroy E s =
       Ret () (with_db destroy_writes (s\<lparr>client := Some c, responses := rs, trace := trace s @ [Call (Delete_vpc v)]\<rparr>))"
    by blast
  then show "\<exists>s'. destroy E wipe s = Ret True s' \<and>
            calls (trace s') = calls (trace s) @ [Delete_vpc v] \<and> responses s' = rs \<and>
            state s' = MISSING \<and>
            lookup ''vpcId'' s' = None \<and> lookup ''region'' s' = None \<and>
            lookup ''cidrBlock'' s' = None \<and> lookup ''instanceTenancy'' s' = None \<and>
            lookup ''enableDnsSupport'' s' = None"
    by (simp add: destroy_def with_db_def destroy_writes_def setitem_def set_state_def log_event_def lookup_def)
qed

theorem destroy_postcondition_witness:
  "state (example_state UP [Empty_response]) = UP \<and>
   can_connect example_env (example_state UP [Empty_response]) \<and>
   state_dict (example_state UP [Empty_response]) ''vpcId'' = Some (S ''vpc-old'') \<and>
   responses (example_state UP [Empty_response]) = Empty_response # [] \<and> deleted Empty_response \<and>
   (\<exists>s'. destroy example_env False (example_state UP [Empty_response]) = Ret True s' \<and>
         calls (trace s') = calls (trace (example_state UP [Empty_response])) @ [Delete_vpc (S ''vpc-old'')] \<and>
         state s' = MISSING \<and> lookup ''vpcId'' s' = None)"
  using destroy_postcondition [of "example_state UP [Empty_response]" example_env False "S ''vpc-old''" Empty_response "[]"]
  by (auto simp: example_state_def example_env_def can_connect_def)

subsection \<open>The waiters\<close>

text \<open>
  Claim C5 (waiter termination count), on the code. With the answers pending, pending,
  available ahead, \<open>wait_for_vpc_available\<close> polls once, sees \<^verbatim>\<open>pending\<close> and fails at
  \<^verbatim>\<open>time.sleep(1)\<close> with a \<^verbatim>\<open>NameError\<close>: one \<^verbatim>\<open>describe_vpcs\<close> call is made and the status is
  not set to \<open>UP\<close>.
\<close>

theorem wait_pending_raises_NameError:
  "result (wait_for_vpc_available (S ''vpc-old'')
     (example_connected STARTING
        [vpc_in_state ''pending'', vpc_in_state ''pending'', vpc_in_state ''available'']))
     = Some (Inl (NameError ''time'')) \<and>
   map_option (calls \<circ> trace) (final (wait_for_vpc_available (S ''vpc-old'')
     (example_connected STARTING
        [vpc_in_state ''pending'', vpc_in_state ''pending'', vpc_in_state ''available''])))
     = Some [Describe_vpcs [S ''vpc-old'']] \<and>
   map_option state (final (wait_for_vpc_available (S ''vpc-old'')
     (example_connected STARTING
        [vpc_in_state ''pending'', vpc_in_state ''pending'', vpc_in_state ''available''])))
     = Some STARTING"
  by (simp add: wait_for_vpc_available_def example_connected_def example_state_def
        vpc_in_state_def api_def time_sleep_def)

lemma api_Vpcs:
  "client s \<noteq> None \<Longrightarrow> responses s = Vpcs_response vpcs # rs \<Longrightarrow>
   api c s = Ret (Vpcs_response vpcs) (polled c rs s)"
  by (auto simp: api_def polled_def)

text \<open>
  Claim C6 (unexpected state). In any round of either waiting loop, and so in the waiter
  itself, a poll that shows the VPC (the association) in a state that is neither the
  one being waited through nor the one being waited for raises the exception that
  carries the state seen; the state left behind is the one right after that very poll.
\<close>

theorem waiters_raise_unexpected_state:
  "(client s \<noteq> None \<and> responses s = Vpcs_response [vpc] # rs \<and>
      State vpc \<noteq> ''pending'' \<and> State vpc \<noteq> ''available'' \<longrightarrow>
      wait_for_vpc_available_loop (Suc n) vid s
        = Raise (UnexpectedState vid (State vpc)) (polled (Describe_vpcs [vid]) rs s) \<and>
      wait_for_vpc_available vid s
        = Raise (UnexpectedState vid (State vpc)) (polled (Describe_vpcs [vid]) rs s)) \<and>
   (client s \<noteq> None \<and> state_dict s ''vpcId'' = Some v \<and> responses s = Vpcs_response [vpc] # rs \<and>
      lookup_association a (Ipv6CidrBlockAssociationSet vpc) = Some assoc \<and>
      Ipv6CidrBlockState assoc \<noteq> ''associating'' \<and> Ipv6CidrBlockState assoc \<noteq> ''associated'' \<longrightarrow>
      wait_for_ipv6_cidr_association_loop (Suc n) a s
        = Raise (Ipv6UnexpectedState a (Ipv6CidrBlockState assoc)) (polled (Describe_vpcs [v]) rs s) \<and>
      wait_for_ipv6_cidr_association a s
        = Raise (Ipv6UnexpectedState a (Ipv6CidrBlockState assoc)) (polled (Describe_vpcs [v]) rs s))"
  by (simp add: wait_for_vpc_available_def wait_for_ipv6_cidr_association_def api_Vpcs getitem_def)

theorem waiters_raise_unexpected_state_witness:
  "client (example_connected STARTING [vpc_in_state ''failed'']) \<noteq> None \<and>
   responses (example_connected STARTING [vpc_in_state ''failed''])
     = Vpcs_response [\<lparr>State = ''failed'', Ipv6CidrBlockAssociationSet = []\<rparr>] # [] \<and>
   wait_for_vpc_available (S ''vpc-old'') (example_connected STARTING [vpc_in_state ''failed''])
     = Raise (UnexpectedState (S ''vpc-old'') ''failed'')
         (polled (Describe_vpcs [S ''vpc-old'']) [] (example_connected STARTING [vpc_in_state ''failed''])) \<and>
   client (example_connected UP [vpc_with_association ''assoc-2'' ''failing'']) \<noteq> None \<and>
   state_dict (example_connected UP [vpc_with_association ''assoc-2'' ''failing'']) ''vpcId''
     = Some (S ''vpc-old'') \<and>
   wait_for_ipv6_cidr_association ''assoc-2'' (example_connected UP [vpc_with_association ''assoc-2'' ''failing''])
     = Raise (Ipv6UnexpectedState ''assoc-2'' ''failing'')
         (polled (Describe_vpcs [S ''vpc-old'']) [] (example_connected UP [vpc_with_association ''assoc-2'' ''failing'']))"
proof -
  let ?s = "example_connected STARTING [vpc_in_state ''failed'']"
  let ?t = "example_connected UP [vpc_with_association ''assoc-2'' ''failing'']"
  let ?vpc = "\<lparr>State = ''failed'', Ipv6CidrBlockAssociationSet = []\<rparr>"
  let ?assoc = "\<lparr>AssociationId = ''assoc-2'', Ipv6CidrBlock = ''2001:db8::/56'', Ipv6CidrBlockState = ''failing''\<rparr>"
  let ?vpc2 = "\<lparr>State = ''available'', Ipv6CidrBlockAssociationSet = [?assoc]\<rparr>"
  have h1: "client ?s \<noteq> None \<and> responses ?s = Vpcs_response [?vpc] # [] \<and>
      State ?vpc \<noteq> ''pending'' \<and> State ?vpc \<noteq> ''available''"
    by (simp add: example_connected_def example_state_def vpc_in_state_def)
  have h2: "client ?t \<noteq> None \<and> state_dict ?t ''vpcId'' = Some (S ''vpc-old'') \<and>
      responses ?t = Vpcs_response [?vpc2] # [] \<and>
      lookup_association ''assoc-2'' (Ipv6CidrBlockAssociationSet ?vpc2) = Some ?assoc \<and>
      Ipv6CidrBlockState ?assoc \<noteq> ''associating'' \<and> Ipv6CidrBlockState ?assoc \<noteq> ''associated''"
    by (simp add: example_connected_def example_state_def vpc_with_association_def)
  from h1 waiters_raise_unexpected_state [THEN conjunct1, of ?s ?vpc "[]" 0 "S ''vpc-old''"]
  have c1: "wait_for_vpc_available (S ''vpc-old'') ?s
     = Raise (UnexpectedState (S ''vpc-old'') ''failed'') (polled (Describe_vpcs [S ''vpc-old'']) [] ?s)"
    by simp
  from h2 waiters_raise_unexpected_state [THEN conjunct2, of ?t "S ''vpc-old''" ?vpc2 "[]" "''assoc-2''" ?assoc 0]
  have c2: "wait_for_ipv6_cidr_association ''assoc-2'' ?t
     = Raise (Ipv6UnexpectedState ''assoc-2'' ''failing'') (polled (Describe_vpcs [S ''vpc-old'']) [] ?t)"
    by simp
  from h1 h2 c1 c2 show ?thesis by simp
qed

text \<open>
  Claim C7 (not found). In any round of either waiting loop, and so in the waiter itself,
  a poll whose answer does not list exactly one VPC raises the exception that asks for a
  deploy with \<^verbatim>\<open>--check\<close>, naming the stored VPC id, right after that poll.
\<close>

theorem waiters_raise_not_found:
  "client s \<noteq> None \<and> state_dict s ''vpcId'' = Some v \<and>
   responses s = Vpcs_response vpcs # rs \<and> length vpcs \<noteq> 1 \<longrightarrow>
     wait_for_vpc_available_loop (Suc n) vid s = Raise (NotFound v) (polled (Describe_vpcs [vid]) rs s) \<and>
     wait_for_vpc_available vid s = Raise (NotFound v) (polled (Describe_vpcs [vid]) rs s) \<and>
     wait_for_ipv6_cidr_association_loop (Suc n) a s = Raise (NotFound v) (polled (Describe_vpcs [v]) rs s) \<and>
     wait_for_ipv6_cidr_association a s = Raise (NotFound v) (polled (Describe_vpcs [v]) rs s)"
  by (simp add: wait_for_vpc_available_def wait_for_ipv6_cidr_association_def api_Vpcs getitem_def)
     (simp add: polled_def)

theorem waiters_raise_not_found_witness:
  "client (example_connected STARTING [Vpcs_response []]) \<noteq> None \<and>
   state_dict (example_connected STARTING [Vpcs_response []]) ''vpcId'' = Some (S ''vpc-old'') \<and>
   responses (example_connected STARTING [Vpcs_response []]) = Vpcs_response [] # [] \<and>
   length ([] :: vpc_description list) \<noteq> 1 \<and>
   wait_for_vpc_available (S ''vpc-old'') (example_connected STARTING [Vpcs_response []])
     = Raise (NotFound (S ''vpc-old''))
         (polled (Describe_vpcs [S ''vpc-old'']) [] (example_connected STARTING [Vpcs_response []])) \<and>
   wait_for_ipv6_cidr_association ''assoc-2'' (example_connected STARTING [Vpcs_response []])
     = Raise (NotFound (S ''vpc-old''))
         (polled (Describe_vpcs [S ''vpc-old'']) [] (example_connected STARTING [Vpcs_response []]))"
proof -
  let ?s = "example_connected STARTING [Vpcs_response []]"
  have h: "client ?s \<noteq> None \<and> state_dict ?s ''vpcId'' = Some (S ''vpc-old'') \<and>
      responses ?s = Vpcs_response [] # [] \<and> length ([] :: vpc_description list) \<noteq> 1"
    by (simp add: example_connected_def example_state_def)
  with waiters_raise_not_found [of ?s "S ''vpc-old''" "[]" "[]" 0 "S ''vpc-old''" "''assoc-2''"]
  show ?thesis by blast
qed

subsection \<open>Writes and transactional blocks\<close>

lemma outside_writes_append:
  "outside_writes b (xs @ ys) = outside_writes b xs @ outside_writes (in_block b xs) ys"
  by (induction b xs rule: outside_writes.induct) simp_all

lemma blocks_append: "blocks (xs @ ys) = blocks xs + blocks ys"
  by (simp add: blocks_def)

lemma create_part_tidy:
  "final (create_part E cfg s) = Some s' \<Longrightarrow>
     \<exists>es. trace s' = trace s @ Write ''region'' # es \<and> outside_writes False es = [] \<and>
       in_block False es = False \<and> blocks es \<le> 1"
  by (auto simp: create_part_def create_vpc_def create_writes_def blocks_def prim_defs Let_def
      split: option.splits list.splits response.splits if_splits)

lemma bind_assoc: "bind (bind m f) g = bind m (\<lambda>a s. bind (f a s) g)"
  by (cases m) simp_all

lemma realize_create_vpc_parts:
  "realize_create_vpc E cfg ar s =
     bind (create_until_commit E cfg ar s) (\<lambda>vid s1.
     bind (update_tags_using E tag_updater (tags cfg) True s1) (\<lambda>_ s2.
       wait_for_vpc_available (S vid) s2))"
  by (simp add: realize_create_vpc_def create_until_commit_def create_part_def bind_assoc)

lemma wait_ret:
  "wait_for_vpc_available v s = Ret u s' \<Longrightarrow> single_block (new_events s s')"
  by (auto simp: wait_for_vpc_available_def time_sleep_def new_events_def prim_defs Let_def
      split: option.splits list.splits response.splits if_splits)

lemma wait_raise:
  "wait_for_vpc_available v s = Raise e s' \<Longrightarrow>
     no_writes (new_events s s') \<and> state_dict s' = state_dict s \<and> state s' = state s"
  by (auto simp: wait_for_vpc_available_def time_sleep_def new_events_def prim_defs Let_def
      split: option.splits list.splits response.splits if_splits)

lemma dns_ret: "realize_dns_config E cfg ar s = Ret u s' \<Longrightarrow> single_block (new_events s s')"
  by (auto simp: realize_dns_config_def new_events_def prim_defs dns_writes_def Let_def
      split: option.splits list.splits response.splits if_splits)

lemma dns_raise: "realize_dns_config E cfg ar s = Raise e s' \<Longrightarrow> no_writes (new_events s s') \<and> state_dict s' = state_dict s \<and> state s' = state s"
  by (auto simp: realize_dns_config_def new_events_def prim_defs dns_writes_def Let_def
      split: option.splits list.splits response.splits if_splits)

lemma classic_ret: "realize_classic_link_change E cfg ar s = Ret u s' \<Longrightarrow> single_block (new_events s s')"
  by (auto simp: realize_classic_link_change_def new_events_def prim_defs Let_def
      split: option.splits list.splits response.splits if_splits)

lemma classic_raise: "realize_classic_link_change E cfg ar s = Raise e s' \<Longrightarrow> no_writes (new_events s s') \<and> state_dict s' = state_dict s \<and> state s' = state s"
  by (auto simp: realize_classic_link_change_def new_events_def prim_defs Let_def
      split: option.splits list.splits response.splits if_splits)

lemma tag_any: "final (realize_update_tag E cfg ar s) = Some s' \<Longrightarrow> no_writes (new_events s s') \<and> state_dict s' = state_dict s \<and> state s' = state s"
  by (auto simp: realize_update_tag_def new_events_def prim_defs Let_def
      split: option.splits list.splits response.splits if_splits)

lemma ipv6_ret: "realize_associate_ipv6_cidr_block E cfg ar s = Ret u s' \<Longrightarrow> single_block (new_events s s')"
  by (auto simp: realize_associate_ipv6_cidr_block_def new_events_def prim_defs Let_def
        associate_vpc_cidr_block_def wait_for_ipv6_cidr_association_def time_sleep_def ipv6_writes_def
      split: option.splits list.splits response.splits if_splits)

lemma ipv6_raise: "realize_associate_ipv6_cidr_block E cfg ar s = Raise e s' \<Longrightarrow> no_writes (new_events s s') \<and> state_dict s' = state_dict s \<and> state s' = state s"
  by (auto simp: realize_associate_ipv6_cidr_block_def new_events_def prim_defs Let_def
        associate_vpc_cidr_block_def wait_for_ipv6_cidr_association_def time_sleep_def ipv6_writes_def
      split: option.splits list.splits response.splits if_splits)

lemma connect_Ret:
  assumes "connect E s = Ret u s1"
  shows "\<exists>c. s1 = s\<lparr>client := Some c\<rparr>"
proof (cases "client s")
  case (Some a)
  with assms have "s1 = s" by (simp add: connect_def)
  with Some have "s1 = s\<lparr>client := Some a\<rparr>" by simp
  then show ?thesis by blast
next
  case None
  with assms show ?thesis
    by (cases "state_dict s ''region''")
       (auto simp: connect_def getitem_def split: if_splits option.splits)
qed

lemma connect_Raise: "connect E s = Raise e s1 \<Longrightarrow> s1 = s"
  by (cases "client s"; cases "state_dict s ''region''")
     (auto simp: connect_def getitem_def split: if_splits option.splits)

lemma connect_not_Hang: "connect E s \<noteq> Hang"
  by (cases "client s"; cases "state_dict s ''region''")
     (auto simp: connect_def getitem_def split: if_splits option.splits)

lemma api_Ret: "api c s = Ret r s1 \<Longrightarrow> s1 = polled c (tl (responses s)) s"
  by (auto simp: api_def polled_def Let_def split: option.splits list.splits response.splits)

lemma api_Raise:
  "api c s = Raise e s1 \<Longrightarrow>
     (e = AttributeError \<and> s1 = s) \<or> (\<exists>code. e = ClientError code \<and> s1 = polled c (tl (responses s)) s)"
  by (auto simp: api_def polled_def Let_def split: option.splits list.splits response.splits)

lemma tidy_refl: "tidy k s s"
  by (simp add: tidy_def blocks_def)

lemma tidy_polled: "tidy k s (polled c rs (s\<lparr>client := x\<rparr>))"
  by (simp add: tidy_def polled_def blocks_def)

lemma tidy_destroy_writes: "tidy 1 s (with_db destroy_writes (polled c rs (s\<lparr>client := x\<rparr>)))"
  by (simp add: tidy_def polled_def blocks_def with_db_def destroy_writes_def setitem_def
        set_state_def log_event_def)

lemma destroy_tidy:
  assumes "final (private_destroy E s) = Some s'"
  shows "tidy 1 s s'"
proof (cases "state s = UP")
  case False
  with assms show ?thesis by (simp add: private_destroy_def tidy_refl)
next
  case True
  show ?thesis
  proof (cases "connect E s")
    case Hang
    then show ?thesis by (simp add: connect_not_Hang)
  next
    case (Raise e s1)
    with assms True connect_Raise [OF Raise] show ?thesis
      by (simp add: private_destroy_def tidy_refl)
  next
    case (Ret u s1)
    from connect_Ret [OF Ret] obtain x where s1: "s1 = s\<lparr>client := Some x\<rparr>" by blast
    show ?thesis
    proof (cases "state_dict s ''vpcId''")
      case None
      with assms True Ret s1 have "s' = s\<lparr>client := Some x\<rparr>"
        by (simp add: private_destroy_def getitem_def)
      then show ?thesis by (simp add: tidy_def blocks_def)
    next
      case (Some v)
      show ?thesis
      proof (cases "api (Delete_vpc v) s1")
        case Hang
        with assms True Ret s1 Some show ?thesis
          by (simp add: private_destroy_def getitem_def)
      next
        case (Ret r s2)
        with api_Ret [OF Ret] have "s2 = polled (Delete_vpc v) (tl (responses s1)) s1" by simp
        with assms True \<open>connect E s = Ret u s1\<close> s1 Some Ret
        have "s' = with_db destroy_writes (polled (Delete_vpc v) (tl (responses s1)) (s\<lparr>client := Some x\<rparr>))"
          by (simp add: private_destroy_def getitem_def)
        then show ?thesis by (simp only: tidy_destroy_writes)
      next
        case (Raise e s2)
        from api_Raise [OF Raise] show ?thesis
        proof
          assume "e = AttributeError \<and> s2 = s1"
          with assms True \<open>connect E s = Ret u s1\<close> s1 Some Raise
          have "s' = s\<lparr>client := Some x\<rparr>"
            by (simp add: private_destroy_def getitem_def)
          then show ?thesis by (simp add: tidy_def blocks_def)
        next
          assume "\<exists>code. e = ClientError code \<and> s2 = polled (Delete_vpc v) (tl (responses s1)) s1"
          then obtain code where e: "e = ClientError code"
            and s2: "s2 = polled (Delete_vpc v) (tl (responses s1)) (s\<lparr>client := Some x\<rparr>)"
            using s1 by blast
          from assms True \<open>connect E s = Ret u s1\<close> s1 Some Raise e
          have "s' = s2 \<or> s' = with_db destroy_writes s2"
            by (simp add: private_destroy_def getitem_def split: if_splits)
          with s2 show ?thesis
            using tidy_destroy_writes [of s "Delete_vpc v" "tl (responses s1)" "Some x"]
              tidy_polled [of 1 s "Delete_vpc v" "tl (responses s1)" "Some x"] by blast
        qed
      qed
    qed
  qed
qed


lemma in_block_append: "in_block b (xs @ ys) = in_block (in_block b xs) ys"
  by (induction b xs rule: in_block.induct) simp_all

lemma until_commit_events:
  assumes "final (create_until_commit E cfg ar s) = Some s'"
  shows "(outside_writes False (new_events s s') = [] \<and> (\<forall>vid. create_until_commit E cfg ar s \<noteq> Ret vid s') \<or>
          outside_writes False (new_events s s') = [''region'']) \<and>
         \<not> in_block False (new_events s s') \<and> blocks (new_events s s') \<le> 2"
proof -
  have rest: "outside_writes False (new_events s s') = [''region''] \<and>
         \<not> in_block False (new_events s s') \<and> blocks (new_events s s') \<le> 2"
    if t: "tidy 1 s s1" and f: "final (create_part E cfg (s1\<lparr>client := c\<rparr>)) = Some s'" for s1 c
  proof -
    from t obtain es1 where es1: "trace s1 = trace s @ es1" "outside_writes False es1 = []"
      "in_block False es1 = False" "blocks es1 \<le> 1"
      by (auto simp: tidy_def)
    from create_part_tidy [OF f] obtain es2 where es2:
      "trace s' = trace s1 @ Write ''region'' # es2" "outside_writes False es2 = []"
      "in_block False es2 = False" "blocks es2 \<le> 1"
      by auto
    from es1 es2 have "new_events s s' = es1 @ Write ''region'' # es2"
      by (simp add: new_events_def)
    with es1 es2 show ?thesis
      by (simp add: outside_writes_append in_block_append blocks_append) (simp add: blocks_def)
  qed
  have stop: "outside_writes False (new_events s s') = [] \<and>
         \<not> in_block False (new_events s s') \<and> blocks (new_events s s') \<le> 2"
    if t: "tidy 1 s s'"
  proof -
    from t obtain es where "trace s' = trace s @ es" "outside_writes False es = []"
      "in_block False es = False" "blocks es \<le> 1"
      by (auto simp: tidy_def)
    then show ?thesis by (simp add: new_events_def)
  qed
  show ?thesis
  proof (cases "state s = UP")
    case False
    with assms have "final (create_part E cfg s) = Some s'"
      by (simp add: create_until_commit_def)
    then have "final (create_part E cfg (s\<lparr>client := client s\<rparr>)) = Some s'" by simp
    with rest [OF tidy_refl] show ?thesis by blast
  next
    case True
    show ?thesis
    proof (cases ar)
      case False
      with True assms have "s' = s" "\<forall>vid. create_until_commit E cfg ar s \<noteq> Ret vid s'"
        by (simp_all add: create_until_commit_def)
      with stop [of ] tidy_refl [of 1 s] show ?thesis by blast
    next
      case ar: True
      show ?thesis
      proof (cases "private_destroy E s")
        case Hang
        with True ar assms show ?thesis by (simp add: create_until_commit_def)
      next
        case (Raise e s1)
        then have "tidy 1 s s1" using destroy_tidy [of E s s1] by simp
        moreover from Raise True ar assms have "s' = s1"
          "\<forall>vid. create_until_commit E cfg ar s \<noteq> Ret vid s'"
          by (simp_all add: create_until_commit_def)
        ultimately show ?thesis using stop by blast
      next
        case (Ret u s1)
        then have "tidy 1 s s1" using destroy_tidy [of E s s1] by simp
        moreover from Ret True ar assms have "final (create_part E cfg (s1\<lparr>client := None\<rparr>)) = Some s'"
          by (simp add: create_until_commit_def)
        ultimately show ?thesis using rest by blast
      qed
    qed
  qed
qed

lemma other_handlers_ret:
  "h \<noteq> handle_create \<Longrightarrow> handle E cfg h ar s = Ret u s' \<Longrightarrow> atomic (new_events s s')"
  using tag_any [of E cfg ar s s']
  by (cases h) (auto simp: atomic_def dns_ret classic_ret ipv6_ret)

lemma other_handlers_raise:
  "h \<noteq> handle_create \<Longrightarrow> handle E cfg h ar s = Raise e s' \<Longrightarrow>
     no_writes (new_events s s') \<and> state_dict s' = state_dict s \<and> state s' = state s"
  using tag_any [of E cfg ar s s']
  by (cases h) (auto simp: dns_raise classic_raise ipv6_raise)

text \<open>
  Claim C4 (amended). A handler other than the creation handler that returns has made
  all its writes within one block, entered after its provider calls, or has written
  nothing; one that raises has written nothing and leaves the stored attributes and the
  status as they were; the tag update writes nothing in any case. The creation handler is
  its part up to the end of its block of assignments, then \<^verbatim>\<open>update_tags_using\<close>, then the
  wait. Up to that end it writes \<^verbatim>\<open>region\<close> outside any block, once when it returns and at
  most once otherwise, and nothing else outside a block, within at most two blocks. The
  wait that returns has written within one block of its own; the wait that raises has
  written nothing.
\<close>

theorem handler_commits:
  "(h \<noteq> handle_create \<and> handle E cfg h ar s = Ret () s' \<longrightarrow> atomic (new_events s s')) \<and>
   (h \<noteq> handle_create \<and> handle E cfg h ar s = Raise e s' \<longrightarrow>
      no_writes (new_events s s') \<and> state_dict s' = state_dict s \<and> state s' = state s) \<and>
   (final (handle E cfg handle_tag_update ar s) = Some s' \<longrightarrow> no_writes (new_events s s')) \<and>
   handle E cfg handle_create ar s =
     bind (create_until_commit E cfg ar s) (\<lambda>vid s1.
     bind (update_tags_using E tag_updater (tags cfg) True s1) (\<lambda>_ s2.
       wait_for_vpc_available (S vid) s2)) \<and>
   (final (create_until_commit E cfg ar s) = Some s' \<longrightarrow>
      (outside_writes False (new_events s s') = [] \<or>
       outside_writes False (new_events s s') = [''region'']) \<and>
      \<not> in_block False (new_events s s') \<and> blocks (new_events s s') \<le> 2) \<and>
   (create_until_commit E cfg ar s = Ret vid s' \<longrightarrow>
      outside_writes False (new_events s s') = [''region'']) \<and>
   (wait_for_vpc_available v s = Ret () s' \<longrightarrow> single_block (new_events s s')) \<and>
   (wait_for_vpc_available v s = Raise e s' \<longrightarrow>
      no_writes (new_events s s') \<and> state_dict s' = state_dict s \<and> state s' = state s)"
proof -
  have c: "final (create_until_commit E cfg ar s) = Some s' \<longrightarrow>
      (outside_writes False (new_events s s') = [] \<or>
       outside_writes False (new_events s s') = [''region'']) \<and>
      \<not> in_block False (new_events s s') \<and> blocks (new_events s s') \<le> 2"
    using until_commit_events [of E cfg ar s s'] by blast
  have r: "create_until_commit E cfg ar s = Ret vid s' \<longrightarrow>
      outside_writes False (new_events s s') = [''region'']"
  proof
    assume a: "create_until_commit E cfg ar s = Ret vid s'"
    then have "final (create_until_commit E cfg ar s) = Some s'" by simp
    from until_commit_events [OF this] a show "outside_writes False (new_events s s') = [''region'']"
      by blast
  qed
  have t: "final (handle E cfg handle_tag_update ar s) = Some s' \<longrightarrow> no_writes (new_events s s')"
    using tag_any [of E cfg ar s s'] by simp
  from c r t other_handlers_ret [of h E cfg ar s "()" s'] other_handlers_raise [of h E cfg ar s e s']
    realize_create_vpc_parts [of E cfg ar s] wait_ret [of v s "()" s'] wait_raise [of v s e s']
  show ?thesis by simp
qed

theorem handler_commits_witness:
  "handle_dns \<noteq> handle_create \<and>
   handle example_env example_config handle_dns False (example_connected UP [Empty_response, Empty_response])
     = Ret () (with_db (dns_writes example_config)
         (polled (Modify_vpc_attribute (Some (S ''vpc-old'')) ''EnableDnsHostnames'' True) []
           (polled (Modify_vpc_attribute (Some (S ''vpc-old'')) ''EnableDnsSupport'' True) [Empty_response]
             (example_connected UP [Empty_response, Empty_response])))) \<and>
   atomic (new_events (example_connected UP [Empty_response, Empty_response])
     (with_db (dns_writes example_config)
         (polled (Modify_vpc_attribute (Some (S ''vpc-old'')) ''EnableDnsHostnames'' True) []
           (polled (Modify_vpc_attribute (Some (S ''vpc-old'')) ''EnableDnsSupport'' True) [Empty_response]
             (example_connected UP [Empty_response, Empty_response]))))) \<and>
   handle example_env example_config handle_dns False
       (example_connected UP [ClientError_response ''Unavailable''])
     = Raise (ClientError ''Unavailable'')
         (polled (Modify_vpc_attribute (Some (S ''vpc-old'')) ''EnableDnsSupport'' True) []
           (example_connected UP [ClientError_response ''Unavailable''])) \<and>
   no_writes (new_events (example_connected UP [ClientError_response ''Unavailable''])
     (polled (Modify_vpc_attribute (Some (S ''vpc-old'')) ''EnableDnsSupport'' True) []
        (example_connected UP [ClientError_response ''Unavailable'']))) \<and>
   final (handle example_env example_config handle_tag_update False (example_connected UP [Empty_response]))
     = Some (polled (Create_tags [Some (S ''vpc-old'')] []) [] (example_connected UP [Empty_response])) \<and>
   no_writes (new_events (example_connected UP [Empty_response])
     (polled (Create_tags [Some (S ''vpc-old'')] []) [] (example_connected UP [Empty_response]))) \<and>
   create_until_commit example_env example_config False (fresh_state [Vpc_response ''vpc-new''])
     = Ret ''vpc-new'' (with_db (create_writes example_config)
         ((polled (Create_vpc ''10.0.0.0/16'' ''default'') []
            ((setitem ''region'' (Some (S ''eu-west-1'')) (fresh_state [Vpc_response ''vpc-new'']))
               \<lparr>client := Some (S ''eu-west-1'')\<rparr>))\<lparr>vpc_id := Some (S ''vpc-new'')\<rparr>)) \<and>
   outside_writes False (new_events (fresh_state [Vpc_response ''vpc-new''])
     (with_db (create_writes example_config)
         ((polled (Create_vpc ''10.0.0.0/16'' ''default'') []
            ((setitem ''region'' (Some (S ''eu-west-1'')) (fresh_state [Vpc_response ''vpc-new'']))
               \<lparr>client := Some (S ''eu-west-1'')\<rparr>))\<lparr>vpc_id := Some (S ''vpc-new'')\<rparr>))) = [''region''] \<and>
   blocks (new_events (fresh_state [Vpc_response ''vpc-new''])
     (with_db (create_writes example_config)
         ((polled (Create_vpc ''10.0.0.0/16'' ''default'') []
            ((setitem ''region'' (Some (S ''eu-west-1'')) (fresh_state [Vpc_response ''vpc-new'']))
               \<lparr>client := Some (S ''eu-west-1'')\<rparr>))\<lparr>vpc_id := Some (S ''vpc-new'')\<rparr>))) \<le> 2 \<and>
   wait_for_vpc_available (S ''vpc-old'') (example_connected STARTING [vpc_in_state ''available''])
     = Ret () (with_db (set_state UP)
         (polled (Describe_vpcs [S ''vpc-old'']) [] (example_connected STARTING [vpc_in_state ''available'']))) \<and>
   single_block (new_events (example_connected STARTING [vpc_in_state ''available''])
     (with_db (set_state UP)
         (polled (Describe_vpcs [S ''vpc-old'']) [] (example_connected STARTING [vpc_in_state ''available''])))) \<and>
   wait_for_vpc_available (S ''vpc-old'') (example_connected STARTING [vpc_in_state ''pending''])
     = Raise (NameError ''time'')
         (polled (Describe_vpcs [S ''vpc-old'']) [] (example_connected STARTING [vpc_in_state ''pending''])) \<and>
   no_writes (new_events (example_connected STARTING [vpc_in_state ''pending''])
     (polled (Describe_vpcs [S ''vpc-old'']) [] (example_connected STARTING [vpc_in_state ''pending''])))"
proof -
  let ?a = "example_connected UP [Empty_response, Empty_response]"
  let ?a' = "with_db (dns_writes example_config)
         (polled (Modify_vpc_attribute (Some (S ''vpc-old'')) ''EnableDnsHostnames'' True) []
           (polled (Modify_vpc_attribute (Some (S ''vpc-old'')) ''EnableDnsSupport'' True) [Empty_response] ?a))"
  let ?b = "example_connected UP [ClientError_response ''Unavailable'']"
  let ?b' = "polled (Modify_vpc_attribute (Some (S ''vpc-old'')) ''EnableDnsSupport'' True) [] ?b"
  let ?t = "example_connected UP [Empty_response]"
  let ?t' = "polled (Create_tags [Some (S ''vpc-old'')] []) [] ?t"
  let ?c = "fresh_state [Vpc_response ''vpc-new'']"
  let ?c' = "with_db (create_writes example_config)
         ((polled (Create_vpc ''10.0.0.0/16'' ''default'') []
            ((setitem ''region'' (Some (S ''eu-west-1'')) ?c)
               \<lparr>client := Some (S ''eu-west-1'')\<rparr>))\<lparr>vpc_id := Some (S ''vpc-new'')\<rparr>)"
  let ?w = "example_connected STARTING [vpc_in_state ''available'']"
  let ?w' = "with_db (set_state UP) (polled (Describe_vpcs [S ''vpc-old'']) [] ?w)"
  let ?x = "example_connected STARTING [vpc_in_state ''pending'']"
  let ?x' = "polled (Describe_vpcs [S ''vpc-old'']) [] ?x"
  have n: "handle_dns \<noteq> handle_create" by simp
  have a: "handle example_env example_config handle_dns False ?a = Ret () ?a'"
    by (simp add: realize_dns_config_def example_connected_def example_state_def example_config_def
          connect_def api_def polled_def)
  have b: "handle example_env example_config handle_dns False ?b = Raise (ClientError ''Unavailable'') ?b'"
    by (simp add: realize_dns_config_def example_connected_def example_state_def example_config_def
          connect_def api_def polled_def)
  have t: "final (handle example_env example_config handle_tag_update False ?t) = Some ?t'"
    by (simp add: realize_update_tag_def example_connected_def example_state_def example_config_def
          example_env_def connect_def api_def polled_def dict_update_def)
  have c: "create_until_commit example_env example_config False ?c = Ret ''vpc-new'' ?c'"
    by (simp add: create_until_commit_def create_part_def create_vpc_def fresh_state_def
          example_config_def example_env_def connect_def getitem_def api_def polled_def
          setitem_def log_event_def)
  have w: "wait_for_vpc_available (S ''vpc-old'') ?w = Ret () ?w'"
    by (simp add: wait_for_vpc_available_def example_connected_def example_state_def
          vpc_in_state_def api_def polled_def)
  have x: "wait_for_vpc_available (S ''vpc-old'') ?x = Raise (NameError ''time'') ?x'"
    by (simp add: wait_for_vpc_available_def example_connected_def example_state_def
          vpc_in_state_def api_def polled_def time_sleep_def)
  from n a handler_commits [of handle_dns example_env example_config False ?a ?a']
  have a': "atomic (new_events ?a ?a')" by blast
  from n b handler_commits [of handle_dns example_env example_config False ?b ?b' "ClientError ''Unavailable''"]
  have b': "no_writes (new_events ?b ?b')" by blast
  from t handler_commits [of handle_tag_update example_env example_config False ?t ?t']
  have t': "no_writes (new_events ?t ?t')" by blast
  from c have cf: "final (create_until_commit example_env example_config False ?c) = Some ?c'" by simp
  from c cf handler_commits [of handle_create example_env example_config False ?c ?c' _ "''vpc-new''"]
  have c': "outside_writes False (new_events ?c ?c') = [''region'']" "blocks (new_events ?c ?c') \<le> 2"
    by blast+
  from w handler_commits [of handle_create example_env example_config False ?w ?w' _ _ "S ''vpc-old''"]
  have w': "single_block (new_events ?w ?w')" by blast
  from x handler_commits [of handle_create example_env example_config False ?x ?x' "NameError ''time''" _ "S ''vpc-old''"]
  have x': "no_writes (new_events ?x ?x')" by blast
  from n a a' b b' t t' c c' w w' x x' show ?thesis by blast
qed

text \<open>
  Claim C4, as stated, fails for the creation handler. Up to the end of its block of
  assignments it has written \<^verbatim>\<open>region\<close> outside every block, so that its writes are not
  those of one block; and the whole handler, run with an \<^verbatim>\<open>update_tags_using\<close> that writes
  nothing and a VPC that is available at once, enters two blocks (its own and the one of
  the waiter).
\<close>

theorem handler_commits_counterexample:
  "map_option (outside_writes False \<circ> trace) (final (create_until_commit example_env example_config False
     (fresh_state [Vpc_response ''vpc-new'']))) = Some [''region''] \<and>
   map_option (atomic \<circ> trace) (final (create_until_commit example_env example_config False
     (fresh_state [Vpc_response ''vpc-new'']))) = Some False \<and>
   result (handle example_env example_config handle_create False
     (fresh_state [Vpc_response ''vpc-new'', Empty_response, vpc_in_state ''available''])) = Some (Inr ()) \<and>
   map_option (outside_writes False \<circ> trace) (final (handle example_env example_config handle_create False
     (fresh_state [Vpc_response ''vpc-new'', Empty_response, vpc_in_state ''available'']))) = Some [''region''] \<and>
   map_option (blocks \<circ> trace) (final (handle example_env example_config handle_create False
     (fresh_state [Vpc_response ''vpc-new'', Empty_response, vpc_in_state ''available'']))) = Some 2 \<and>
   map_option (atomic \<circ> trace) (final (handle example_env example_config handle_create False
     (fresh_state [Vpc_response ''vpc-new'', Empty_response, vpc_in_state ''available'']))) = Some False"
  by (simp add: realize_create_vpc_def create_until_commit_def create_part_def fresh_state_def
        example_env_def example_config_def updater_only_def
        vpc_in_state_def create_vpc_def tag_updater_def
        wait_for_vpc_available_def create_writes_def prim_defs blocks_def atomic_def)

subsection \<open>Recreation\<close>

text \<open>
  With the resource \<open>UP\<close>, a plan that respects the declared predecessors and holds the
  creation handler, and an access key found in the definition or the environment,
  \<open>create\<close> without \<^verbatim>\<open>allow_recreate\<close> raises \<open>RecreateRequired\<close>: no provider call is made,
  the status and \<^verbatim>\<open>self._state\<close> are unchanged, the access key is stored.
\<close>

lemma recreate_required:
  assumes "state s = UP" and "respects_after [] plan" and "handle_create \<in> set plan"
    and "key = (if accessKeyId cfg \<noteq> [] then Some (accessKeyId cfg) else get_access_key_id E)"
    and "key \<noteq> None" and "key \<noteq> Some []"
  shows "create E plan cfg check allow_reboot False s
           = Raise (RecreateRequired (vpc_id s))
               (log_event (Write ''accessKeyId'') (s\<lparr>access_key_id := key\<rparr>))"
proof -
  let ?s0 = "log_event (Write ''accessKeyId'') (s\<lparr>access_key_id := key\<rparr>)"
  from assms(3) obtain h rest where "plan = h # rest"
    by (cases plan) auto
  with assms(2) respects_after_head [of h rest] have plan: "plan = handle_create # rest"
    by simp
  have s0: "state ?s0 = UP" "vpc_id ?s0 = vpc_id s"
    using assms(1) by (simp_all add: log_event_def)
  have "create E plan cfg check allow_reboot False s
      = bind (bind (realize_create_vpc E cfg False ?s0) (\<lambda>_ s1. run_plan E cfg rest False s1))
          (\<lambda>_ s2. ensure_state_up E cfg check s2)"
    using assms(4,5,6) plan by (auto simp: create_def Let_def)
  with s0 show ?thesis by (simp add: realize_create_vpc_def)
qed

text \<open>
  Claim C1 (recreate gating), on the code. The resource is \<open>UP\<close> with \<^verbatim>\<open>vpc-old\<close> stored and
  the definition has another CIDR block, so that the plan is the creation handler.
  Without \<^verbatim>\<open>allow_recreate\<close>, \<open>create\<close> raises \<open>RecreateRequired\<close>. With it, and a provider that
  deletes the old VPC, creates \<^verbatim>\<open>vpc-new\<close> and shows it \<^verbatim>\<open>pending\<close> at the first poll, \<open>create\<close>
  stores \<^verbatim>\<open>vpc-new\<close> in status \<open>STARTING\<close>, polls once and fails at \<^verbatim>\<open>time.sleep(1)\<close> with a
  \<^verbatim>\<open>NameError\<close>: the pass does not end in status \<open>UP\<close>.
\<close>

theorem recreate_pending_raises_NameError:
  "state (example_state UP (recreate_answers ''pending'' [vpc_in_state ''available''])) = UP \<and>
   lookup ''vpcId'' (example_state UP (recreate_answers ''pending'' [vpc_in_state ''available'']))
     = Some (S ''vpc-old'') \<and>
   result (create example_env [handle_create] changed_config False False False
      (example_state UP (recreate_answers ''pending'' [vpc_in_state ''available''])))
     = Some (Inl (RecreateRequired (Some (S ''vpc-old'')))) \<and>
   result (create example_env [handle_create] changed_config False False True
      (example_state UP (recreate_answers ''pending'' [vpc_in_state ''available''])))
     = Some (Inl (NameError ''time'')) \<and>
   map_option state (final (create example_env [handle_create] changed_config False False True
      (example_state UP (recreate_answers ''pending'' [vpc_in_state ''available''])))) = Some STARTING \<and>
   map_option (lookup ''vpcId'') (final (create example_env [handle_create] changed_config False False True
      (example_state UP (recreate_answers ''pending'' [vpc_in_state ''available'']))))
     = Some (Some (S ''vpc-new'')) \<and>
   map_option (calls \<circ> trace) (final (create example_env [handle_create] changed_config False False True
      (example_state UP (recreate_answers ''pending'' [vpc_in_state ''available'']))))
     = Some [Delete_vpc (S ''vpc-old''), Create_vpc ''10.1.0.0/16'' ''default'',
             Create_tags [Some (S ''vpc-new'')] [], Describe_vpcs [S ''vpc-new'']]"
  by (simp add: create_def realize_create_vpc_def private_destroy_def
        example_state_def example_env_def example_config_def changed_config_def
        recreate_answers_def vpc_in_state_def create_vpc_def updater_only_def tag_updater_def
        wait_for_vpc_available_def time_sleep_def create_writes_def destroy_writes_def prim_defs
        lookup_def)

text \<open>
  With the new VPC available at the first poll the same pass ends in status \<open>UP\<close> with the
  new id stored, also when the plan goes on with the handler of the DNS settings.
\<close>

lemma recreate_available_at_once:
  "result (create example_env [handle_create, handle_dns] changed_config False False True
      (example_state UP (recreate_answers ''available'' [Empty_response, Empty_response])))
     = Some (Inr ()) \<and>
   map_option state (final (create example_env [handle_create, handle_dns] changed_config False False True
      (example_state UP (recreate_answers ''available'' [Empty_response, Empty_response])))) = Some UP \<and>
   map_option (lookup ''vpcId'') (final (create example_env [handle_create, handle_dns] changed_config False False True
      (example_state UP (recreate_answers ''available'' [Empty_response, Empty_response]))))
     = Some (Some (S ''vpc-new''))"
  by (simp add: create_def ensure_state_up_def realize_create_vpc_def private_destroy_def
        realize_dns_config_def dns_writes_def
        example_state_def example_env_def example_config_def changed_config_def
        recreate_answers_def vpc_in_state_def create_vpc_def updater_only_def tag_updater_def
        wait_for_vpc_available_def time_sleep_def create_writes_def destroy_writes_def prim_defs
        lookup_def)

text \<open>
  Claim C3 (drift recovery), on the code. The resource is \<open>UP\<close> with \<^verbatim>\<open>vpc-old\<close> stored, the
  definition is unchanged, \<open>check\<close> is set and the provider has lost the VPC. \<open>create\<close>
  deletes and creates, stores \<^verbatim>\<open>vpc-new\<close> in status \<open>STARTING\<close>, polls once, sees \<^verbatim>\<open>pending\<close> and
  fails at \<^verbatim>\<open>time.sleep(1)\<close> with a \<^verbatim>\<open>NameError\<close>: the pass does not end in status \<open>UP\<close>.
\<close>

theorem drift_recovery_pending_raises_NameError:
  "state (example_state UP (drift_answers ''pending'' [vpc_in_state ''available'', Empty_response, Empty_response, Empty_response])) = UP \<and>
   lookup ''vpcId'' (example_state UP (drift_answers ''pending'' [vpc_in_state ''available'', Empty_response, Empty_response, Empty_response])) = Some (S ''vpc-old'') \<and>
   result (create example_env [] example_config True False False
      (example_state UP (drift_answers ''pending'' [vpc_in_state ''available'', Empty_response, Empty_response, Empty_response]))) = Some (Inl (NameError ''time'')) \<and>
   map_option state (final (create example_env [] example_config True False False
      (example_state UP (drift_answers ''pending'' [vpc_in_state ''available'', Empty_response, Empty_response, Empty_response])))) = Some STARTING \<and>
   map_option (lookup ''vpcId'') (final (create example_env [] example_config True False False
      (example_state UP (drift_answers ''pending'' [vpc_in_state ''available'', Empty_response, Empty_response, Empty_response])))) = Some (Some (S ''vpc-new'')) \<and>
   map_option (calls \<circ> trace) (final (create example_env [] example_config True False False
      (example_state UP (drift_answers ''pending'' [vpc_in_state ''available'', Empty_response, Empty_response, Empty_response])))) =
     Some [Describe_vpcs [S ''vpc-old''], Delete_vpc (S ''vpc-old''),
           Create_vpc ''10.0.0.0/16'' ''default'', Create_tags [Some (S ''vpc-new'')] [],
           Describe_vpcs [S ''vpc-new'']]"
  by (simp add: create_def ensure_state_up_def realize_create_vpc_def private_destroy_def
        example_state_def example_env_def example_config_def drift_answers_def vpc_in_state_def
        create_vpc_def updater_only_def tag_updater_def wait_for_vpc_available_def
        time_sleep_def create_writes_def destroy_writes_def prim_defs lookup_def dict_update_def)

text \<open>
  With the new VPC available at the first poll the same pass ends in status \<open>UP\<close> with the
  new id stored.
\<close>

lemma drift_recovery_available_at_once:
  "result (create example_env [] example_config True False False
      (example_state UP (drift_answers ''available'' [Empty_response, Empty_response, Empty_response]))) = Some (Inr ()) \<and>
   map_option state (final (create example_env [] example_config True False False
      (example_state UP (drift_answers ''available'' [Empty_response, Empty_response, Empty_response])))) = Some UP \<and>
   map_option (lookup ''vpcId'') (final (create example_env [] example_config True False False
      (example_state UP (drift_answers ''available'' [Empty_response, Empty_response, Empty_response])))) = Some (Some (S ''vpc-new''))"
  by (simp add: create_def ensure_state_up_def realize_create_vpc_def private_destroy_def
        realize_classic_link_change_def realize_dns_config_def dns_writes_def
        example_state_def example_env_def example_config_def drift_answers_def vpc_in_state_def
        create_vpc_def updater_only_def tag_updater_def wait_for_vpc_available_def
        time_sleep_def create_writes_def destroy_writes_def prim_defs lookup_def dict_update_def)

end
